theory Spec2Isabelle
  imports Complex_Main "HOL-Library.Word"
begin

unbundle bit_operations_syntax

section \<open>Common types\<close>

text \<open>
  A \<^verbatim>\<open>std::byte\<close> is an 8-bit word, \<^verbatim>\<open>Uint16\<close>, \<^verbatim>\<open>Uint32\<close> and
  \<^verbatim>\<open>Uint64\<close> are words of their width. Everything in the sources that aborts, throws
  or reads outside an object is a value of \<open>error\<close>; a function that can do so returns
  \<open>error + 'a\<close> with \<open>Inl\<close> for the failure.
\<close>

type_synonym byte = "8 word"
type_synonym Uint8 = "8 word"
type_synonym Uint16 = "16 word"
type_synonym Uint32 = "32 word"
type_synonym Sint32 = "32 word"
type_synonym Uint64 = "64 word"

datatype error =
    OutOfBoundsRead       \<comment> \<open>a load or an index outside the vector (undefined behaviour in C++)\<close>
  | AssertionFailed string \<comment> \<open>a failed \<^verbatim>\<open>CUAssertLog\<close> / \<^verbatim>\<open>CUAssert\<close>\<close>
  | OutOfRangeException   \<comment> \<open>\<^verbatim>\<open>std::out_of_range\<close> thrown by \<^verbatim>\<open>unordered_map::at\<close>\<close>
  | FloatToIntOverflow    \<comment> \<open>a float converted to \<^verbatim>\<open>int\<close> outside the range of \<^verbatim>\<open>int\<close> (undefined)\<close>
  | FloatNotFinite        \<comment> \<open>a float operation whose result is an infinity or NaN (not represented)\<close>
  | IntOverflow           \<comment> \<open>signed \<^verbatim>\<open>int\<close> arithmetic outside the range of \<^verbatim>\<open>int\<close> (undefined)\<close>

definition bindE :: "error + 'a \<Rightarrow> ('a \<Rightarrow> error + 'b) \<Rightarrow> error + 'b" where
  "bindE m f = (case m of Inl e \<Rightarrow> Inl e | Inr x \<Rightarrow> f x)"

text \<open>
  \<^verbatim>\<open>CUAssertLog(condition, msg)\<close> and \<^verbatim>\<open>CUAssert(condition)\<close> come from
  \<^verbatim>\<open>cugl/util/CUDebug.h\<close>, which is not among the sources. Whether assertions are
  compiled in is the parameter \<open>enabled\<close> of every function that asserts: when they
  are, a false condition aborts the program; when they are not, the macro is empty and
  the code after it runs.
\<close>

definition CUAssertLog :: "bool \<Rightarrow> bool \<Rightarrow> string \<Rightarrow> error + unit" where
  "CUAssertLog enabled condition msg =
     (if enabled \<and> \<not> condition then Inl (AssertionFailed msg) else Inr ())"

section \<open>Byte codec: LWDeserializer\<close>

text \<open>
  Modelled from the spec: \<^verbatim>\<open>marshall\<close> (\<^verbatim>\<open>cugl/base/CUEndian.h\<close>, not among the
  sources). The spec has every multi-byte scalar in network byte order on the wire, so
  \<^verbatim>\<open>marshall(*r)\<close> of the bytes at \<^verbatim>\<open>r\<close> is their big-endian value.
\<close>

definition marshall_load :: "byte list \<Rightarrow> 'a::len word" where
  "marshall_load bs = foldl (\<lambda>acc b. push_bit 8 acc OR ucast b) 0 bs"

record LWDeserializer =
  data :: "byte list"   \<comment> \<open>\<^verbatim>\<open>_data\<close>\<close>
  pos :: nat            \<comment> \<open>\<^verbatim>\<open>_pos\<close>\<close>

definition receive :: "LWDeserializer \<Rightarrow> byte list \<Rightarrow> LWDeserializer" where
  "receive d msg = d\<lparr>data := msg, pos := 0\<rparr>"

definition readBool :: "LWDeserializer \<Rightarrow> error + (bool \<times> LWDeserializer)" where
  "readBool d =
     (if pos d \<ge> length (data d) then Inr (False, d)
      else Inr (data d ! pos d = 1, d\<lparr>pos := pos d + 1\<rparr>))"

definition readByte :: "LWDeserializer \<Rightarrow> error + (byte \<times> LWDeserializer)" where
  "readByte d =
     (if pos d \<ge> length (data d) then Inr (0, d)
      else Inr (data d ! pos d, d\<lparr>pos := pos d + 1\<rparr>))"

text \<open>
  The scalar reads test only \<^verbatim>\<open>_pos >= _data.size()\<close> and then load
  \<^verbatim>\<open>sizeof(T)\<close> bytes through a reinterpreted pointer. \<open>readScalar w\<close> is that body
  for a scalar of \<open>w\<close> bytes: the load of \<open>w\<close> bytes at \<open>pos\<close> lies inside the
  vector only when \<open>pos + w \<le> size\<close>; otherwise it reads past the end.
\<close>

definition readScalar :: "nat \<Rightarrow> LWDeserializer \<Rightarrow> error + ('a::len word \<times> LWDeserializer)" where
  "readScalar w d =
     (if pos d \<ge> length (data d) then Inr (0, d)
      else if pos d + w > length (data d) then Inl OutOfBoundsRead
      else Inr (marshall_load (take w (drop (pos d) (data d))), d\<lparr>pos := pos d + w\<rparr>))"

text \<open>A \<^verbatim>\<open>float\<close> on the wire is its 32-bit pattern; \<^verbatim>\<open>0.0f\<close> is the pattern 0.\<close>

definition readFloat :: "LWDeserializer \<Rightarrow> error + (32 word \<times> LWDeserializer)" where
  "readFloat d = readScalar 4 d"

definition readSint32 :: "LWDeserializer \<Rightarrow> error + (Sint32 \<times> LWDeserializer)" where
  "readSint32 d = readScalar 4 d"

definition readUint16 :: "LWDeserializer \<Rightarrow> error + (Uint16 \<times> LWDeserializer)" where
  "readUint16 d = readScalar 2 d"

definition readUint32 :: "LWDeserializer \<Rightarrow> error + (Uint32 \<times> LWDeserializer)" where
  "readUint32 d = readScalar 4 d"

definition readUint64 :: "LWDeserializer \<Rightarrow> error + (Uint64 \<times> LWDeserializer)" where
  "readUint64 d = readScalar 8 d"

section \<open>GameStateEvent\<close>

datatype GameStateType =
  UID_ASSIGN | CLIENT_RDY | GAME_START | GAME_RESET | GAME_PAUSE | GAME_RESUME

fun type_code :: "GameStateType \<Rightarrow> byte" where
  "type_code UID_ASSIGN = 100"
| "type_code CLIENT_RDY = 101"
| "type_code GAME_START = 102"
| "type_code GAME_RESET = 103"
| "type_code GAME_PAUSE = 104"
| "type_code GAME_RESUME = 105"

record GameStateEvent =
  gs_type :: GameStateType   \<comment> \<open>\<^verbatim>\<open>_type\<close>\<close>
  shortUID :: Uint32          \<comment> \<open>\<^verbatim>\<open>_shortUID\<close>\<close>

text \<open>
  The constructor sets \<^verbatim>\<open>_type = GAME_START\<close> and leaves \<^verbatim>\<open>_shortUID\<close>
  uninitialised: \<open>uninit\<close> stands for whatever the field then holds.
\<close>

definition newGameStateEvent :: "Uint32 \<Rightarrow> GameStateEvent" where
  "newGameStateEvent uninit = \<lparr>gs_type = GAME_START, shortUID = uninit\<rparr>"

definition allocUIDAssign :: "Uint32 \<Rightarrow> Uint32 \<Rightarrow> GameStateEvent" where
  "allocUIDAssign uninit uid = (newGameStateEvent uninit)\<lparr>gs_type := UID_ASSIGN, shortUID := uid\<rparr>"

definition getShortUID :: "GameStateEvent \<Rightarrow> Uint8" where
  "getShortUID e = ucast (shortUID e)"

fun gs_serialize :: "GameStateEvent \<Rightarrow> byte list" where
  "gs_serialize e =
     (case gs_type e of
        GAME_START \<Rightarrow> [type_code GAME_START]
      | GAME_RESET \<Rightarrow> [type_code GAME_RESET]
      | GAME_PAUSE \<Rightarrow> [type_code GAME_PAUSE]
      | GAME_RESUME \<Rightarrow> [type_code GAME_RESUME]
      | CLIENT_RDY \<Rightarrow> [type_code CLIENT_RDY]
      | UID_ASSIGN \<Rightarrow> [type_code UID_ASSIGN, ucast (shortUID e)])"

text \<open>
  \<^verbatim>\<open>deserialize\<close> indexes \<^verbatim>\<open>data[0]\<close>, and \<^verbatim>\<open>data[1]\<close> for a UID assignment,
  with no length check: an index outside the vector is \<open>OutOfBoundsRead\<close>. A first byte
  that is no type code reaches \<^verbatim>\<open>CUAssertLog(false, ...)\<close>.
\<close>

definition gs_deserialize :: "bool \<Rightarrow> GameStateEvent \<Rightarrow> byte list \<Rightarrow> error + GameStateEvent" where
  "gs_deserialize asserts e dat =
     (if length dat < 1 then Inl OutOfBoundsRead
      else let flag = dat ! 0 in
        if flag = type_code GAME_START then Inr (e\<lparr>gs_type := GAME_START\<rparr>)
        else if flag = type_code GAME_RESET then Inr (e\<lparr>gs_type := GAME_RESET\<rparr>)
        else if flag = type_code GAME_PAUSE then Inr (e\<lparr>gs_type := GAME_PAUSE\<rparr>)
        else if flag = type_code GAME_RESUME then Inr (e\<lparr>gs_type := GAME_RESUME\<rparr>)
        else if flag = type_code CLIENT_RDY then Inr (e\<lparr>gs_type := CLIENT_RDY\<rparr>)
        else if flag = type_code UID_ASSIGN then
          (if length dat < 2 then Inl OutOfBoundsRead
           else Inr (e\<lparr>gs_type := UID_ASSIGN, shortUID := ucast (dat ! 1)\<rparr>))
        else bindE (CUAssertLog asserts False ''Deserializing game state event type'')
               (\<lambda>_. Inr e))"

section \<open>Single-precision arithmetic\<close>

text \<open>
  A finite \<^verbatim>\<open>float\<close> is the real number it stands for. Every arithmetic operation on
  floats returns the exact result rounded to the nearest binary32 value, ties to the even
  significand: \<open>fl\<close>. A binary32 value is an integer multiple \<open>m * 2 ^ e\<close> with
  \<open>\<bar>m\<bar> < 2 ^ 24\<close> and \<open>- 149 \<le> e\<close>; \<open>ulp_exp x\<close> is the exponent of the
  grid around \<open>x\<close>. Infinities and NaN are not represented: an operation whose rounded
  result is not below \<open>2 ^ 128\<close> in magnitude, or a division by zero, is
  \<open>FloatNotFinite\<close>.
\<close>

definition round_half_even :: "real \<Rightarrow> int" where
  "round_half_even q =
     (let f = \<lfloor>q\<rfloor>; r = q - of_int f in
      if r < 1 / 2 then f
      else if r > 1 / 2 then f + 1
      else if even f then f else f + 1)"

definition ulp_exp :: "real \<Rightarrow> int" where
  "ulp_exp x = max (\<lfloor>log 2 \<bar>x\<bar>\<rfloor> - 23) (- 149)"

definition fl :: "real \<Rightarrow> real" where
  "fl x = (if x = 0 then 0
           else of_int (round_half_even (x / 2 powi ulp_exp x)) * 2 powi ulp_exp x)"

definition fop :: "real \<Rightarrow> error + real" where
  "fop x = (if \<bar>fl x\<bar> < 2 ^ 128 then Inr (fl x) else Inl FloatNotFinite)"

definition fadd :: "real \<Rightarrow> real \<Rightarrow> error + real" where
  "fadd a b = fop (a + b)"

definition fsub :: "real \<Rightarrow> real \<Rightarrow> error + real" where
  "fsub a b = fop (a - b)"

definition fmul :: "real \<Rightarrow> real \<Rightarrow> error + real" where
  "fmul a b = fop (a * b)"

definition fdiv :: "real \<Rightarrow> real \<Rightarrow> error + real" where
  "fdiv a b = (if b = 0 then Inl FloatNotFinite else fop (a / b))"

definition fsqrt :: "real \<Rightarrow> error + real" where
  "fsqrt a = (if a < 0 then Inl FloatNotFinite else fop (sqrt a))"

text \<open>\<^verbatim>\<open>(float)i\<close> for an \<^verbatim>\<open>int\<close>: the nearest binary32 value.\<close>

definition int_to_float :: "int \<Rightarrow> real" where
  "int_to_float i = fl (of_int i)"


text \<open>
  \<^verbatim>\<open>(int)f\<close> truncates towards zero; it is undefined when the truncated value is
  not an \<^verbatim>\<open>int\<close>.
\<close>

definition float_to_int :: "real \<Rightarrow> error + int" where
  "float_to_int f =
     (let t = (if 0 \<le> f then \<lfloor>f\<rfloor> else \<lceil>f\<rceil>) in
      if - (2 ^ 31) \<le> t \<and> t < 2 ^ 31 then Inr t else Inl FloatToIntOverflow)"

text \<open>The macros of \<^verbatim>\<open>SDL_stdinc.h\<close>: \<^verbatim>\<open>(((x) < (y)) ? (x) : (y))\<close> and its dual.\<close>

definition SDL_min :: "int \<Rightarrow> int \<Rightarrow> int" where
  "SDL_min x y = (if x < y then x else y)"

definition SDL_max :: "int \<Rightarrow> int \<Rightarrow> int" where
  "SDL_max x y = (if x > y then x else y)"

section \<open>Obstacles and the obstacle world\<close>

type_synonym Vec2 = "real \<times> real"

text \<open>
  Modelled from the spec: \<^verbatim>\<open>Vec2\<close> (\<^verbatim>\<open>cugl/math/CUVec2.h\<close>, not among the
  sources): componentwise difference, sum and division by a scalar, and the Euclidean
  length, each operation in single precision.
\<close>

definition vec2_sub :: "Vec2 \<Rightarrow> Vec2 \<Rightarrow> error + Vec2" where
  "vec2_sub a b = bindE (fsub (fst a) (fst b)) (\<lambda>x. bindE (fsub (snd a) (snd b)) (\<lambda>y. Inr (x, y)))"

definition vec2_add :: "Vec2 \<Rightarrow> Vec2 \<Rightarrow> error + Vec2" where
  "vec2_add a b = bindE (fadd (fst a) (fst b)) (\<lambda>x. bindE (fadd (snd a) (snd b)) (\<lambda>y. Inr (x, y)))"

definition vec2_div :: "Vec2 \<Rightarrow> real \<Rightarrow> error + Vec2" where
  "vec2_div a k = bindE (fdiv (fst a) k) (\<lambda>x. bindE (fdiv (snd a) k) (\<lambda>y. Inr (x, y)))"

definition vec2_length :: "Vec2 \<Rightarrow> error + real" where
  "vec2_length a =
     bindE (fmul (fst a) (fst a)) (\<lambda>xx.
     bindE (fmul (snd a) (snd a)) (\<lambda>yy.
     bindE (fadd xx yy) fsqrt))"

datatype b2BodyType = b2_staticBody | b2_kinematicBody | b2_dynamicBody

text \<open>
  Modelled from the spec: \<^verbatim>\<open>physics2::Obstacle\<close> (\<^verbatim>\<open>cugl/physics2/CUObstacle.h\<close>,
  not among the sources). The spec's body record: pose, motion, boolean and float
  constants, body type, the \<open>shared\<close> flag and one dirty bit per property group. A
  setter writes its property and, on a shared body, marks the group dirty.
\<close>

record Obstacle =
  position :: Vec2
  angle :: real
  linearVelocity :: Vec2
  angularVelocity :: real
  bodyType :: b2BodyType
  enabled :: bool
  awake :: bool
  sleepingAllowed :: bool
  fixedRotation :: bool
  bullet :: bool
  sensor :: bool
  density :: real
  friction :: real
  restitution :: real
  linearDamping :: real
  angularDamping :: real
  gravityScale :: real
  mass :: real
  inertia :: real
  centroid :: Vec2
  shared :: bool
  posDirty :: bool
  angleDirty :: bool
  velDirty :: bool
  angVelDirty :: bool
  typeDirty :: bool
  boolConstDirty :: bool
  floatConstDirty :: bool

definition setShared :: "bool \<Rightarrow> Obstacle \<Rightarrow> Obstacle" where
  "setShared v b = b\<lparr>shared := v\<rparr>"

definition setPosition :: "Vec2 \<Rightarrow> Obstacle \<Rightarrow> Obstacle" where
  "setPosition v b = b\<lparr>position := v, posDirty := posDirty b \<or> shared b\<rparr>"



definition setLinearVelocity :: "Vec2 \<Rightarrow> Obstacle \<Rightarrow> Obstacle" where
  "setLinearVelocity v b = b\<lparr>linearVelocity := v, velDirty := velDirty b \<or> shared b\<rparr>"



definition setAngle :: "real \<Rightarrow> Obstacle \<Rightarrow> Obstacle" where
  "setAngle v b = b\<lparr>angle := v, angleDirty := angleDirty b \<or> shared b\<rparr>"

definition setAngularVelocity :: "real \<Rightarrow> Obstacle \<Rightarrow> Obstacle" where
  "setAngularVelocity v b = b\<lparr>angularVelocity := v, angVelDirty := angVelDirty b \<or> shared b\<rparr>"

definition setBodyType :: "b2BodyType \<Rightarrow> Obstacle \<Rightarrow> Obstacle" where
  "setBodyType v b = b\<lparr>bodyType := v, typeDirty := typeDirty b \<or> shared b\<rparr>"

definition markBool :: "Obstacle \<Rightarrow> Obstacle" where
  "markBool b = b\<lparr>boolConstDirty := boolConstDirty b \<or> shared b\<rparr>"

definition markFloat :: "Obstacle \<Rightarrow> Obstacle" where
  "markFloat b = b\<lparr>floatConstDirty := floatConstDirty b \<or> shared b\<rparr>"

definition setEnabled :: "bool \<Rightarrow> Obstacle \<Rightarrow> Obstacle" where
  "setEnabled v b = markBool (b\<lparr>enabled := v\<rparr>)"

definition setAwake :: "bool \<Rightarrow> Obstacle \<Rightarrow> Obstacle" where
  "setAwake v b = markBool (b\<lparr>awake := v\<rparr>)"

definition setSleepingAllowed :: "bool \<Rightarrow> Obstacle \<Rightarrow> Obstacle" where
  "setSleepingAllowed v b = markBool (b\<lparr>sleepingAllowed := v\<rparr>)"

definition setFixedRotation :: "bool \<Rightarrow> Obstacle \<Rightarrow> Obstacle" where
  "setFixedRotation v b = markBool (b\<lparr>fixedRotation := v\<rparr>)"

definition setBullet :: "bool \<Rightarrow> Obstacle \<Rightarrow> Obstacle" where
  "setBullet v b = markBool (b\<lparr>bullet := v\<rparr>)"

definition setSensor :: "bool \<Rightarrow> Obstacle \<Rightarrow> Obstacle" where
  "setSensor v b = markBool (b\<lparr>sensor := v\<rparr>)"

definition setDensity :: "real \<Rightarrow> Obstacle \<Rightarrow> Obstacle" where
  "setDensity v b = markFloat (b\<lparr>density := v\<rparr>)"

definition setFriction :: "real \<Rightarrow> Obstacle \<Rightarrow> Obstacle" where
  "setFriction v b = markFloat (b\<lparr>friction := v\<rparr>)"

definition setRestitution :: "real \<Rightarrow> Obstacle \<Rightarrow> Obstacle" where
  "setRestitution v b = markFloat (b\<lparr>restitution := v\<rparr>)"

definition setLinearDamping :: "real \<Rightarrow> Obstacle \<Rightarrow> Obstacle" where
  "setLinearDamping v b = markFloat (b\<lparr>linearDamping := v\<rparr>)"

definition setGravityScale :: "real \<Rightarrow> Obstacle \<Rightarrow> Obstacle" where
  "setGravityScale v b = markFloat (b\<lparr>gravityScale := v\<rparr>)"

definition setMass :: "real \<Rightarrow> Obstacle \<Rightarrow> Obstacle" where
  "setMass v b = markFloat (b\<lparr>mass := v\<rparr>)"

definition setInertia :: "real \<Rightarrow> Obstacle \<Rightarrow> Obstacle" where
  "setInertia v b = markFloat (b\<lparr>inertia := v\<rparr>)"

definition setCentroid :: "Vec2 \<Rightarrow> Obstacle \<Rightarrow> Obstacle" where
  "setCentroid v b = markFloat (b\<lparr>centroid := v\<rparr>)"


text \<open>
  A \<^verbatim>\<open>std::shared_ptr<Obstacle>\<close> is the address it holds, a natural number; the
  objects themselves live in the store \<open>objects\<close> of the world, so that a write
  through one pointer is seen through every copy of it. A scene node is an address too.
\<close>

type_synonym obs = nat
type_synonym node = nat

text \<open>\<^verbatim>\<open>unordered_map::insert\<close> keeps the entry of a key that is already present.\<close>

definition umap_insert :: "('k \<rightharpoonup> 'v) \<Rightarrow> 'k \<Rightarrow> 'v \<Rightarrow> ('k \<rightharpoonup> 'v)" where
  "umap_insert m k v = (case m k of None \<Rightarrow> m(k \<mapsto> v) | Some _ \<Rightarrow> m)"


text \<open>
  \<^verbatim>\<open>physics2::ObstacleWorld\<close> (\<^verbatim>\<open>CUObstacleWorld.cpp\<close>): the fields the
  networking code reads and writes. \<^verbatim>\<open>_objects\<close> is the ordered list of bodies,
  \<^verbatim>\<open>_idToObj\<close> and \<^verbatim>\<open>_objToId\<close> are the two id maps, \<^verbatim>\<open>_owned\<close> is the
  ownership ledger (body to remaining ticks, 0 for a permanent lease) and \<^verbatim>\<open>_bounds\<close>
  is the rectangle \<open>(x, y, width, height)\<close>. The accessors \<^verbatim>\<open>getObstacles()\<close>,
  \<^verbatim>\<open>getIdToObj()\<close>, \<^verbatim>\<open>getObjToId()\<close> and \<^verbatim>\<open>getOwned()\<close> are declared in
  \<^verbatim>\<open>CUObstacleWorld.h\<close>, which is not among the sources; each is read as a
  reference to the field of its name. The Box2D side (\<^verbatim>\<open>activatePhysics\<close>,
  \<^verbatim>\<open>deactivatePhysics\<close>) is outside the model.
\<close>

record ObstacleWorld =
  obstacles :: "obs list"              \<comment> \<open>\<^verbatim>\<open>_objects\<close>, \<^verbatim>\<open>getObstacles()\<close>\<close>
  idToObj :: "Uint64 \<rightharpoonup> obs"          \<comment> \<open>\<^verbatim>\<open>_idToObj\<close>\<close>
  objToId :: "obs \<rightharpoonup> Uint64"          \<comment> \<open>\<^verbatim>\<open>_objToId\<close>\<close>
  owned :: "obs \<rightharpoonup> Uint64"            \<comment> \<open>\<^verbatim>\<open>_owned\<close>\<close>
  objects :: "obs \<Rightarrow> Obstacle"         \<comment> \<open>the Obstacle at each address\<close>
  nextAddress :: obs                    \<comment> \<open>the address the next allocated Obstacle gets\<close>
  bounds :: "real \<times> real \<times> real \<times> real"

text \<open>
  \<^verbatim>\<open>inBounds\<close>: \<^verbatim>\<open>origin.x <= getX() && getX() <= origin.x + size.width\<close>, and the
  same vertically; the sums are single-precision additions (a sum that overflows
  compares as an infinity does, above every finite coordinate).
\<close>

definition inBounds :: "ObstacleWorld \<Rightarrow> Obstacle \<Rightarrow> bool" where
  "inBounds w b =
     (case bounds w of (bx, by, bw, bh) \<Rightarrow>
        (bx \<le> fst (position b) \<and> fst (position b) \<le> fl (bx + bw)) \<and>
        (by \<le> snd (position b) \<and> snd (position b) \<le> fl (by + bh)))"

text \<open>
  \<^verbatim>\<open>addObstacle(obj, id)\<close>: two assertions, then the body is pushed on the list and
  both maps get the pair by \<^verbatim>\<open>insert\<close>, which keeps an entry already there.
\<close>

definition addObstacle :: "bool \<Rightarrow> ObstacleWorld \<Rightarrow> obs \<Rightarrow> Uint64 \<Rightarrow> error + ObstacleWorld" where
  "addObstacle asserts w ob oid =
     bindE (CUAssertLog asserts (inBounds w (objects w ob)) ''Obstacle is not in bounds'') (\<lambda>_.
     bindE (CUAssertLog asserts (idToObj w oid = None) ''Duplicate Obstacle ids are not allowed'') (\<lambda>_.
       Inr (w\<lparr>obstacles := obstacles w @ [ob],
               idToObj := umap_insert (idToObj w) oid ob,
               objToId := umap_insert (objToId w) ob oid\<rparr>)))"

text \<open>
  \<^verbatim>\<open>removeObstacle(obj)\<close>: the first occurrence of the body is erased from the
  list and the call returns; the id maps and the ledger are not touched. For a body that
  is not on the list the call asserts and, with assertions compiled out, does nothing.
\<close>

definition removeObstacle :: "bool \<Rightarrow> ObstacleWorld \<Rightarrow> obs \<Rightarrow> error + ObstacleWorld" where
  "removeObstacle asserts w ob =
     (if ob \<in> set (obstacles w) then Inr (w\<lparr>obstacles := remove1 ob (obstacles w)\<rparr>)
      else bindE (CUAssertLog asserts False ''Physics object not present in world'') (\<lambda>_. Inr w))"

section \<open>Physics events\<close>

record ObjParam =
  p_objId :: Uint64
  p_x :: real
  p_y :: real
  p_vx :: real
  p_vy :: real
  p_angle :: real
  p_vAngular :: real

text \<open>
  A \<^verbatim>\<open>PhysObjEvent\<close> is its \<^verbatim>\<open>_type\<close> together with the fields that type uses.
  \<open>OBJ_OTHER\<close> is a \<^verbatim>\<open>_type\<close> outside the enumeration, which a deserialised event
  can hold.
\<close>

datatype PhysObjChange =
    OBJ_CREATION Uint32 "byte list"
  | OBJ_DELETION
  | OBJ_BODY_TYPE b2BodyType
  | OBJ_POSITION Vec2
  | OBJ_VELOCITY Vec2
  | OBJ_ANGLE real
  | OBJ_ANGULAR_VEL real
  | OBJ_BOOL_CONSTS bool bool bool bool bool bool
  | OBJ_FLOAT_CONSTS real real real real real real real real Vec2
  | OBJ_OWNER_ACQUIRE Uint64
  | OBJ_OWNER_RELEASE
  | OBJ_OTHER Uint32

record PhysObjEvent =
  ev_objId :: Uint64
  ev_change :: PhysObjChange

datatype payload =
    GameStateP GameStateEvent
  | PhysSyncP "ObjParam list"
  | PhysObjP PhysObjEvent
  | CustomP nat "byte list"

text \<open>
  The metadata every \<^verbatim>\<open>NetEvent\<close> carries, around the fields of its class. An event
  made locally has the empty source id; an outbound event is kept as its payload.
\<close>

record 'p NetEvent =
  eventTimeStamp :: Uint64
  receiveTimeStamp :: Uint64
  sourceID :: string
  body :: 'p




section \<open>NetPhysicsController\<close>

record targetParam =
  curStep :: int
  numSteps :: int
  P0 :: Vec2
  P1 :: Vec2
  P2 :: Vec2
  P3 :: Vec2
  targetVel :: Vec2
  targetAngle :: real
  targetAngV :: real
  I_sum :: Vec2       \<comment> \<open>\<^verbatim>\<open>I\<close>\<close>
  numI :: Uint64

text \<open>\<^verbatim>\<open>std::make_shared<targetParam>()\<close> zero-initialises the struct.\<close>

definition new_targetParam :: targetParam where
  "new_targetParam =
     \<lparr>curStep = 0, numSteps = 0, P0 = (0, 0), P1 = (0, 0), P2 = (0, 0), P3 = (0, 0),
      targetVel = (0, 0), targetAngle = 0, targetAngV = 0, I_sum = (0, 0), numI = 0\<rparr>"

text \<open>
  The interpolation cache is an \<^verbatim>\<open>unordered_map\<close> from body to target; it is kept as
  an association list with one entry per body, walked in list order (the order in which
  the C++ map is walked is unspecified, and every step of the walk touches one body only).
  A factory is the function from parameter bytes to the new body and its optional scene
  node; \<open>linkSceneToObsFunc\<close> records whether the linking callback was given (its
  effect on the scene graph is outside the model).
\<close>

record NetPhysicsController =
  itprCount :: int
  ovrdCount :: int
  stepSum :: int
  isHost :: bool
  objRotation :: Uint64
  world :: ObstacleWorld
  cache :: "(obs \<times> targetParam) list"
  deleteCache :: "obs list"
  obstacleFacts :: "(byte list \<Rightarrow> Obstacle \<times> node option) list"
  linkSceneToObsFunc :: bool
  sharedObsToNodeMap :: "obs \<rightharpoonup> node option"
  outEvents :: "payload list"

definition cache_erase :: "obs \<Rightarrow> (obs \<times> targetParam) list \<Rightarrow> (obs \<times> targetParam) list" where
  "cache_erase ob c = filter (\<lambda>kv. fst kv \<noteq> ob) c"

definition cache_insert :: "obs \<Rightarrow> targetParam \<Rightarrow> (obs \<times> targetParam) list \<Rightarrow> (obs \<times> targetParam) list" where
  "cache_insert ob p c = (case map_of c ob of None \<Rightarrow> c @ [(ob, p)] | Some _ \<Rightarrow> c)"


definition upd_obj :: "obs \<Rightarrow> (Obstacle \<Rightarrow> Obstacle) \<Rightarrow> NetPhysicsController \<Rightarrow> NetPhysicsController" where
  "upd_obj ob f c = c\<lparr>world := (world c)\<lparr>objects := (objects (world c))(ob := f (objects (world c) ob))\<rparr>\<rparr>"

definition set_owned :: "(obs \<rightharpoonup> Uint64) \<Rightarrow> NetPhysicsController \<Rightarrow> NetPhysicsController" where
  "set_owned m c = c\<lparr>world := (world c)\<lparr>owned := m\<rparr>\<rparr>"



definition ownAll :: "NetPhysicsController \<Rightarrow> NetPhysicsController" where
  "ownAll c = set_owned (foldl (\<lambda>m ob. umap_insert m ob 0) (owned (world c)) (obstacles (world c))) c"

text \<open>
  The body of the \<^verbatim>\<open>switch\<close> of \<open>processPhysObjEvent\<close> that writes a body
  property; \<^verbatim>\<open>OBJ_FLOAT_CONSTS\<close> does not write the angular damping. The ownership
  cases and every other type leave the body as it is.
\<close>

definition applyChange :: "PhysObjChange \<Rightarrow> Obstacle \<Rightarrow> Obstacle" where
  "applyChange ch b =
     (case ch of
        OBJ_BODY_TYPE t \<Rightarrow> setBodyType t b
      | OBJ_POSITION v \<Rightarrow> setPosition v b
      | OBJ_VELOCITY v \<Rightarrow> setLinearVelocity v b
      | OBJ_ANGLE a \<Rightarrow> setAngle a b
      | OBJ_ANGULAR_VEL a \<Rightarrow> setAngularVelocity a b
      | OBJ_BOOL_CONSTS en aw sl fr bu se \<Rightarrow>
          (let b1 = (if en \<noteq> enabled b then setEnabled en b else b);
               b2 = (if aw \<noteq> awake b1 then setAwake aw b1 else b1);
               b3 = (if sl \<noteq> sleepingAllowed b2 then setSleepingAllowed sl b2 else b2);
               b4 = (if fr \<noteq> fixedRotation b3 then setFixedRotation fr b3 else b3);
               b5 = (if bu \<noteq> bullet b4 then setBullet bu b4 else b4)
           in if se \<noteq> sensor b5 then setSensor se b5 else b5)
      | OBJ_FLOAT_CONSTS de fr re ld ad gs ma ine ce \<Rightarrow>
          (let b1 = (if de \<noteq> density b then setDensity de b else b);
               b2 = (if fr \<noteq> friction b1 then setFriction fr b1 else b1);
               b3 = (if re \<noteq> restitution b2 then setRestitution re b2 else b2);
               b4 = (if ld \<noteq> linearDamping b3 then setLinearDamping ld b3 else b3);
               b5 = (if gs \<noteq> gravityScale b4 then setGravityScale gs b4 else b4);
               b6 = (if ma \<noteq> mass b5 then setMass ma b5 else b5);
               b7 = (if ine \<noteq> inertia b6 then setInertia ine b6 else b6)
           in if ce \<noteq> centroid b7 then setCentroid ce b7 else b7)
      | _ \<Rightarrow> b)"

definition createFromEvent ::
  "bool \<Rightarrow> NetPhysicsController \<Rightarrow> Uint64 \<Rightarrow> Uint32 \<Rightarrow> byte list \<Rightarrow> error + NetPhysicsController" where
  "createFromEvent asserts c oid fid params =
     bindE (CUAssertLog asserts (unat fid < length (obstacleFacts c)) ''Unknown object Factory'') (\<lambda>_.
     if length (obstacleFacts c) \<le> unat fid then Inl OutOfBoundsRead
     else
       (let made = (obstacleFacts c ! unat fid) params;
            ob = nextAddress (world c);
            w1 = (world c)\<lparr>objects := (objects (world c))(ob := fst made), nextAddress := ob + 1\<rparr>
        in bindE (addObstacle asserts w1 ob oid) (\<lambda>w2.
             (let c1 = c\<lparr>world := w2\<rparr>;
                  c2 = (if linkSceneToObsFunc c1
                        then c1\<lparr>sharedObsToNodeMap := umap_insert (sharedObsToNodeMap c1) ob (snd made)\<rparr>
                        else c1)
              in Inr (if isHost c2 then set_owned (umap_insert (owned (world c2)) ob 0) c2 else c2)))))"

definition processPhysObjEvent ::
  "bool \<Rightarrow> NetPhysicsController \<Rightarrow> PhysObjEvent NetEvent \<Rightarrow> error + NetPhysicsController" where
  "processPhysObjEvent asserts c event =
     (if sourceID event = [] then Inr c
      else
        (let oid = ev_objId (body event); ch = ev_change (body event) in
         case ch of
           OBJ_CREATION fid params \<Rightarrow> createFromEvent asserts c oid fid params
         | _ \<Rightarrow>
           (case idToObj (world c) oid of
              None \<Rightarrow> Inr c
            | Some ob \<Rightarrow>
              (case ch of
                 OBJ_DELETION \<Rightarrow>
                   bindE (removeObstacle asserts (world c) ob) (\<lambda>w.
                     Inr (c\<lparr>cache := cache_erase ob (cache c),
                            world := w,
                            sharedObsToNodeMap := (sharedObsToNodeMap c)(ob := None)\<rparr>))
               | _ \<Rightarrow>
                 (let c1 = upd_obj ob (setShared False) c;
                      c2 = upd_obj ob (applyChange ch) c1;
                      c3 = (case ch of
                              OBJ_OWNER_ACQUIRE _ \<Rightarrow> set_owned ((owned (world c2))(ob := None)) c2
                            | OBJ_OWNER_RELEASE \<Rightarrow>
                                (if isHost c2 then set_owned (umap_insert (owned (world c2)) ob 0) c2 else c2)
                            | _ \<Rightarrow> c2)
                  in Inr (upd_obj ob (setShared True) c3))))))"

definition addSyncObject :: "NetPhysicsController \<Rightarrow> obs \<Rightarrow> targetParam \<Rightarrow> NetPhysicsController" where
  "addSyncObject c ob param =
     (let (c1, param1) =
            (case map_of (cache c) ob of
               Some oldParam \<Rightarrow>
                 (upd_obj ob (setShared True)
                   (upd_obj ob (setAngularVelocity (targetAngV oldParam))
                     (upd_obj ob (setLinearVelocity (targetVel oldParam))
                       (upd_obj ob (setShared False) c))),
                  param\<lparr>I_sum := I_sum oldParam, numI := numI oldParam\<rparr>)
             | None \<Rightarrow> (c, param))
      in c1\<lparr>cache := cache_insert ob param1 (cache_erase ob (cache c1)),
             stepSum := stepSum c1 + numSteps param1,
             itprCount := itprCount c1 + 1\<rparr>)"

definition isInSync :: "NetPhysicsController \<Rightarrow> obs \<Rightarrow> bool" where
  "isInSync c ob = (map_of (cache c) ob \<noteq> None)"

text \<open>
  The step count of a new target:
  \<^verbatim>\<open>SDL_max(1, SDL_min(30, SDL_max((int)(diff * 30), (int)angDiff)))\<close>.
\<close>

definition stepCount :: "real \<Rightarrow> real \<Rightarrow> error + int" where
  "stepCount diff angDiff =
     bindE (fmul diff 30) (\<lambda>d30.
     bindE (float_to_int d30) (\<lambda>i1.
     bindE (float_to_int angDiff) (\<lambda>i2.
       Inr (SDL_max 1 (SDL_min 30 (SDL_max i1 i2))))))"

definition syncOne :: "NetPhysicsController \<Rightarrow> ObjParam \<Rightarrow> error + NetPhysicsController" where
  "syncOne c param =
     (case idToObj (world c) (p_objId param) of
        None \<Rightarrow> Inr c
      | Some ob \<Rightarrow>
        (let b = objects (world c) ob in
         bindE (vec2_sub (position b) (p_x param, p_y param)) (\<lambda>dv.
         bindE (vec2_length dv) (\<lambda>diff.
         bindE (fsub (angle b) (p_angle param)) (\<lambda>da.
         bindE (fmul 10 \<bar>da\<bar>) (\<lambda>angDiff.
         bindE (stepCount diff angDiff) (\<lambda>steps.
         bindE (vec2_div (linearVelocity b) 10) (\<lambda>v10.
         bindE (vec2_add (position b) v10) (\<lambda>p1.
         bindE (vec2_div (p_vx param, p_vy param) 10) (\<lambda>t10.
         bindE (vec2_sub (p_x param, p_y param) t10) (\<lambda>p2.
           Inr (addSyncObject c ob
                  (new_targetParam\<lparr>targetVel := (p_vx param, p_vy param),
                                   targetAngle := p_angle param,
                                   targetAngV := p_vAngular param,
                                   curStep := 0,
                                   numSteps := steps,
                                   P0 := position b,
                                   P1 := p1,
                                   P3 := (p_x param, p_y param),
                                   P2 := p2\<rparr>)))))))))))))"

fun syncAll :: "NetPhysicsController \<Rightarrow> ObjParam list \<Rightarrow> error + NetPhysicsController" where
  "syncAll c [] = Inr c"
| "syncAll c (param # params) = bindE (syncOne c param) (\<lambda>c'. syncAll c' params)"

definition processPhysSyncEvent ::
  "NetPhysicsController \<Rightarrow> (ObjParam list) NetEvent \<Rightarrow> error + NetPhysicsController" where
  "processPhysSyncEvent c event =
     (if sourceID event = [] then Inr c else syncAll c (body event))"




text \<open>
  \<open>interpolate\<close>: \<^verbatim>\<open>(target-source)/stepsLeft+source\<close> on floats, \<open>stepsLeft\<close>
  converted to \<^verbatim>\<open>float\<close> for the division.
\<close>

definition interpolate :: "int \<Rightarrow> real \<Rightarrow> real \<Rightarrow> error + real" where
  "interpolate stepsLeft target source =
     bindE (fsub target source) (\<lambda>d.
     bindE (fdiv d (int_to_float stepsLeft)) (\<lambda>q.
     fadd q source))"










section \<open>NetEventController\<close>

datatype Status = IDLE | CONNECTING | CONNECTED | HANDSHAKE | READY | INGAME | NETERROR

text \<open>
  A slot of \<^verbatim>\<open>_newEventVector\<close> holds a prototype of one event class: what its
  \<^verbatim>\<open>newEvent()\<close> returns and its \<^verbatim>\<open>deserialize\<close>, the two virtual methods
  \<open>unwrap\<close> calls.
\<close>

record prototype =
  newEvent :: payload
  deserialize :: "payload \<Rightarrow> byte list \<Rightarrow> error + payload"

text \<open>
  \<^verbatim>\<open>_appRef->getUpdateCount()\<close> belongs to the \<^verbatim>\<open>Application\<close> class, not among the
  sources: the count is the argument \<open>updateCount\<close> of the functions that read it, a
  \<^verbatim>\<open>Uint64\<close> like the time stamps it is compared with. The physics controller is read
  only while \<open>physEnabled\<close> holds.
\<close>

record NetEventController =
  startGameTimeStamp :: Uint64
  status :: Status
  ec_isHost :: bool
  numReady :: Uint8
  newEventVector :: "prototype list"
  inEventQueue :: "payload NetEvent list"
  outEventQueue :: "payload list"
  ec_shortUID :: Uint32
  physEnabled :: bool
  physController :: NetPhysicsController

definition MIN_MSG_LENGTH :: nat where
  "MIN_MSG_LENGTH = 1 + 8"

definition gameStatePrototype :: "bool \<Rightarrow> Uint32 \<Rightarrow> prototype" where
  "gameStatePrototype asserts uninit =
     \<lparr>newEvent = GameStateP (newGameStateEvent uninit),
      deserialize = (\<lambda>p dat. case p of
                        GameStateP e \<Rightarrow> bindE (gs_deserialize asserts e dat) (\<lambda>e'. Inr (GameStateP e'))
                      | _ \<Rightarrow> Inr p)\<rparr>"

text \<open>
  \<open>unwrap\<close>. The assertion comes first. After it the tag byte is read, the prototype
  indexed (outside the vector when the tag is not below its size), the time stamp read,
  and the payload copied from \<^verbatim>\<open>data.begin() + MIN_MSG_LENGTH\<close>, an iterator past the
  end when the message is shorter than that.
\<close>

definition unwrap ::
  "bool \<Rightarrow> NetEventController \<Rightarrow> Uint64 \<Rightarrow> byte list \<Rightarrow> string \<Rightarrow> error + payload NetEvent" where
  "unwrap asserts c updateCount dat source =
     bindE (CUAssertLog asserts
              (length dat \<ge> MIN_MSG_LENGTH \<and> unat (dat ! 0) < length (newEventVector c))
              ''Unwrapping invalid event'') (\<lambda>_.
     bindE (readByte (receive \<lparr>data = [], pos = 0\<rparr> dat)) (\<lambda>(eventType, d1).
     if length (newEventVector c) \<le> unat eventType then Inl OutOfBoundsRead
     else
       (let proto = newEventVector c ! unat eventType; e = newEvent proto in
        bindE (readUint64 d1) (\<lambda>(stamp, d2).
        (let receiveStamp = updateCount - startGameTimeStamp c in
         if length dat < MIN_MSG_LENGTH then Inl OutOfBoundsRead
         else bindE (deserialize proto e (drop MIN_MSG_LENGTH dat)) (\<lambda>e'.
                Inr \<lparr>eventTimeStamp = stamp, receiveTimeStamp = receiveStamp,
                     sourceID = source, body = e'\<rparr>))))))"

definition processGameStateEvent ::
  "NetEventController \<Rightarrow> Uint64 \<Rightarrow> GameStateEvent \<Rightarrow> NetEventController" where
  "processGameStateEvent c updateCount e =
     (let c1 = (if status c = HANDSHAKE \<and> gs_type e = UID_ASSIGN
                then c\<lparr>ec_shortUID := ucast (getShortUID e)\<rparr> else c);
          c2 = (if status c1 = READY \<and> gs_type e = GAME_START
                then c1\<lparr>status := INGAME, startGameTimeStamp := updateCount\<rparr> else c1)
      in if ec_isHost c2 \<and> gs_type e = CLIENT_RDY then c2\<lparr>numReady := numReady c2 + 1\<rparr> else c2)"

definition with_body :: "'a NetEvent \<Rightarrow> 'b \<Rightarrow> 'b NetEvent" where
  "with_body e b =
     \<lparr>eventTimeStamp = eventTimeStamp e, receiveTimeStamp = receiveTimeStamp e,
      sourceID = sourceID e, body = b\<rparr>"

definition processReceivedEvent ::
  "bool \<Rightarrow> NetEventController \<Rightarrow> Uint64 \<Rightarrow> payload NetEvent \<Rightarrow> error + NetEventController" where
  "processReceivedEvent asserts c updateCount e =
     (case body e of
        GameStateP game \<Rightarrow> Inr (processGameStateEvent c updateCount game)
      | PhysSyncP phys \<Rightarrow>
          if status c = INGAME \<and> physEnabled c
          then bindE (processPhysSyncEvent (physController c) (with_body e phys))
                 (\<lambda>pc. Inr (c\<lparr>physController := pc\<rparr>))
          else Inr c
      | PhysObjP phys \<Rightarrow>
          if status c = INGAME \<and> physEnabled c
          then bindE (processPhysObjEvent asserts (physController c) (with_body e phys))
                 (\<lambda>pc. Inr (c\<lparr>physController := pc\<rparr>))
          else Inr c
      | CustomP _ _ \<Rightarrow>
          if status c = INGAME then Inr (c\<lparr>inEventQueue := inEventQueue c @ [e]\<rparr>) else Inr c)"

text \<open>The callback \<open>processReceivedData\<close> runs on each received message.\<close>

definition processReceivedData ::
  "bool \<Rightarrow> NetEventController \<Rightarrow> Uint64 \<Rightarrow> string \<Rightarrow> byte list \<Rightarrow> error + NetEventController" where
  "processReceivedData asserts c updateCount source dat =
     bindE (unwrap asserts c updateCount dat source) (processReceivedEvent asserts c updateCount)"

definition isInAvailable :: "NetEventController \<Rightarrow> Uint64 \<Rightarrow> bool" where
  "isInAvailable c updateCount =
     (case inEventQueue c of
        [] \<Rightarrow> False
      | front # _ \<Rightarrow> eventTimeStamp front \<le> updateCount - startGameTimeStamp c)"

text \<open>\<^verbatim>\<open>front()\<close> and \<^verbatim>\<open>pop()\<close> on an empty queue are undefined.\<close>

definition popInEvent :: "NetEventController \<Rightarrow> error + (payload NetEvent \<times> NetEventController)" where
  "popInEvent c =
     (case inEventQueue c of
        [] \<Rightarrow> Inl OutOfBoundsRead
      | e # q \<Rightarrow> Inr (e, c\<lparr>inEventQueue := q\<rparr>))"

definition pushOutEvent :: "NetEventController \<Rightarrow> payload \<Rightarrow> NetEventController" where
  "pushOutEvent c e = c\<lparr>outEventQueue := outEventQueue c @ [e]\<rparr>"

section \<open>Scenarios\<close>

text \<open>
  A world with one shared body at rest at the origin, at address 0 under the id 7, and a
  controller on it: the state the concrete cases below start from.
\<close>

definition body_at_rest :: Obstacle where
  "body_at_rest =
     \<lparr>position = (0, 0), angle = 0, linearVelocity = (0, 0), angularVelocity = 0,
      bodyType = b2_dynamicBody, enabled = True, awake = True, sleepingAllowed = True,
      fixedRotation = False, bullet = False, sensor = False,
      density = 1, friction = 0, restitution = 0, linearDamping = 0, angularDamping = 0,
      gravityScale = 1, mass = 1, inertia = 1, centroid = (0, 0), shared = True,
      posDirty = False, angleDirty = False, velDirty = False, angVelDirty = False,
      typeDirty = False, boolConstDirty = False, floatConstDirty = False\<rparr>"

definition one_body_world :: "Obstacle \<Rightarrow> ObstacleWorld" where
  "one_body_world b =
     \<lparr>obstacles = [0], idToObj = [7 \<mapsto> 0], objToId = [0 \<mapsto> 7], owned = Map.empty,
      objects = (\<lambda>_. b), nextAddress = 1, bounds = (- 100, - 100, 200, 200)\<rparr>"

definition one_body_controller :: "bool \<Rightarrow> Obstacle \<Rightarrow> NetPhysicsController" where
  "one_body_controller host b =
     \<lparr>itprCount = 0, ovrdCount = 0, stepSum = 0, isHost = host, objRotation = 0,
      world = one_body_world b, cache = [], deleteCache = [], obstacleFacts = [],
      linkSceneToObsFunc = False, sharedObsToNodeMap = Map.empty, outEvents = []\<rparr>"

text \<open>
  A client in a running game, its start tick 100, with the game-state class registered
  under tag 0 and a given inbound queue; and an application event stamped with the sender
  tick 500.
\<close>

definition ingame_client :: "payload NetEvent list \<Rightarrow> NetEventController" where
  "ingame_client q =
     \<lparr>startGameTimeStamp = 100, status = INGAME, ec_isHost = False, numReady = 0,
      newEventVector = [gameStatePrototype True 0], inEventQueue = q, outEventQueue = [],
      ec_shortUID = 2, physEnabled = True,
      physController = one_body_controller False body_at_rest\<rparr>"

definition event_at_500 :: "payload NetEvent" where
  "event_at_500 =
     \<lparr>eventTimeStamp = 500, receiveTimeStamp = 380, sourceID = ''peer'',
      body = CustomP 3 [1, 2, 3]\<rparr>"

text \<open>
  A position event and a one-entry snapshot for the body with id 7, as received from the
  sender \<open>src\<close>; the empty \<open>src\<close> is an event this peer made itself.
\<close>

definition position_event :: "string \<Rightarrow> PhysObjEvent NetEvent" where
  "position_event src =
     \<lparr>eventTimeStamp = 5, receiveTimeStamp = 5, sourceID = src,
      body = \<lparr>ev_objId = 7, ev_change = OBJ_POSITION (3, 4)\<rparr>\<rparr>"

definition snapshot_at :: "real \<Rightarrow> ObjParam" where
  "snapshot_at x =
     \<lparr>p_objId = 7, p_x = x, p_y = 0, p_vx = 0, p_vy = 0, p_angle = 0, p_vAngular = 0\<rparr>"

definition snapshot_event :: "string \<Rightarrow> real \<Rightarrow> (ObjParam list) NetEvent" where
  "snapshot_event src x =
     \<lparr>eventTimeStamp = 5, receiveTimeStamp = 5, sourceID = src, body = [snapshot_at x]\<rparr>"






text \<open>
  A second application event, stamped with the sender tick 900; a deletion event for the
  body with id 7 as received from a peer; and the controller that holds a lease of 5
  ticks on a body no longer on the list of the world, which is what processing that
  deletion leaves behind.
\<close>

definition event_at_900 :: "payload NetEvent" where
  "event_at_900 =
     \<lparr>eventTimeStamp = 900, receiveTimeStamp = 380, sourceID = ''peer'',
      body = CustomP 3 [4, 5, 6]\<rparr>"



section \<open>Theorems\<close>

text \<open>
  C10. A UID assignment carries its short UID as one byte. Serialising an event built
  with the 32-bit short UID \<open>u\<close> and deserialising the bytes into a fresh event yields
  a UID assignment whose short UID is \<open>u mod 256\<close>; \<open>getShortUID\<close> returns the low
  8 bits of the stored value; and a short UID of 256 or more does not survive.
\<close>

theorem C10_uid_assign_one_byte:
  "\<exists>e'. gs_deserialize asserts (newGameStateEvent j) (gs_serialize (allocUIDAssign i u)) = Inr e'
        \<and> gs_type e' = UID_ASSIGN
        \<and> unat (shortUID e') = unat u mod 256
        \<and> unat (getShortUID (allocUIDAssign i u)) = unat u mod 256
        \<and> unat (getShortUID e') = unat u mod 256
        \<and> (256 \<le> unat u \<longrightarrow> shortUID e' \<noteq> u)"
proof -
  let ?e = "(newGameStateEvent j)\<lparr>gs_type := UID_ASSIGN, shortUID := ucast (ucast u :: byte)\<rparr>"
  have ser: "gs_serialize (allocUIDAssign i u) = [100, ucast u]"
    by (simp add: allocUIDAssign_def newGameStateEvent_def)
  have des: "gs_deserialize asserts (newGameStateEvent j) [100, ucast u] = Inr ?e"
    by (simp add: gs_deserialize_def)
  have m: "unat (ucast (ucast u :: byte) :: Uint32) = unat u mod 256"
    by (simp add: unsigned_ucast_eq take_bit_eq_mod unsigned_take_bit_eq unat_mod)
  have g1: "unat (getShortUID (allocUIDAssign i u)) = unat u mod 256"
    by (simp add: getShortUID_def allocUIDAssign_def unsigned_ucast_eq take_bit_eq_mod
        unsigned_take_bit_eq)
  have g2: "unat (getShortUID ?e) = unat u mod 256"
    by (simp add: getShortUID_def unsigned_ucast_eq take_bit_eq_mod unsigned_take_bit_eq
        unat_mod)
  have ne: "256 \<le> unat u \<longrightarrow> shortUID ?e \<noteq> u"
  proof
    assume big: "256 \<le> unat u"
    show "shortUID ?e \<noteq> u"
    proof
      assume "shortUID ?e = u"
      then have "unat u = unat u mod 256" using m by simp
      then have "unat u < 256" by (metis mod_less_divisor zero_less_numeral)
      with big show False by simp
    qed
  qed
  show ?thesis
    using ser des m g1 g2 ne by (intro exI [of _ ?e]) simp
qed

theorem C10_uid_assign_one_byte_witness:
  "256 \<le> unat (300 :: Uint32)
   \<and> (\<exists>e'. gs_deserialize True (newGameStateEvent 0) (gs_serialize (allocUIDAssign 0 300)) = Inr e'
          \<and> gs_type e' = UID_ASSIGN \<and> unat (shortUID e') = 44 \<and> shortUID e' \<noteq> 300)"
  using C10_uid_assign_one_byte [of True 0 0 300] by auto

text \<open>
  C6. The claim has every read that would pass the end of the buffer return zero without
  touching memory outside it, also when fewer bytes remain than the scalar is wide. The
  reads guard only \<^verbatim>\<open>_pos >= _data.size()\<close>: with two bytes loaded and \<open>pos = 0\<close>
  a 4-byte read loads bytes 0 to 3, two of them past the end; likewise a 2-byte read
  with one byte left and an 8-byte read with seven left.
\<close>

theorem C6_partial_read_past_end:
  "readUint32 \<lparr>data = [1, 2], pos = 0\<rparr> = Inl OutOfBoundsRead
   \<and> readFloat \<lparr>data = [1, 2], pos = 0\<rparr> = Inl OutOfBoundsRead
   \<and> readSint32 \<lparr>data = [1, 2, 3], pos = 0\<rparr> = Inl OutOfBoundsRead
   \<and> readUint16 \<lparr>data = [1], pos = 0\<rparr> = Inl OutOfBoundsRead
   \<and> readUint64 \<lparr>data = [1, 2, 3, 4, 5, 6, 7, 8, 9], pos = 2\<rparr> = Inl OutOfBoundsRead"
  by (simp add: readUint32_def readFloat_def readSint32_def readUint16_def readUint64_def
      readScalar_def)




text \<open>
  C9. An event whose source id is the empty string is ignored by both
  \<open>processPhysObjEvent\<close> and \<open>processPhysSyncEvent\<close>: the controller, and with it the
  world, the id maps, the ledger, the cache and the outbound events, is returned as it
  was.
\<close>

theorem C9_own_events_ignored:
  assumes "sourceID ev = []" and "sourceID sv = []"
  shows "processPhysObjEvent asserts c ev = Inr c \<and> processPhysSyncEvent c sv = Inr c"
  using assms by (simp add: processPhysObjEvent_def processPhysSyncEvent_def)

theorem C9_own_events_ignored_witness:
  "sourceID (position_event []) = [] \<and> sourceID (snapshot_event [] 3) = []
   \<and> processPhysObjEvent True (one_body_controller False body_at_rest) (position_event [])
       = Inr (one_body_controller False body_at_rest)
   \<and> processPhysSyncEvent (one_body_controller False body_at_rest) (snapshot_event [] 3)
       = Inr (one_body_controller False body_at_rest)"
proof -
  have a: "sourceID (position_event []) = []" and b: "sourceID (snapshot_event [] 3) = []"
    by (simp_all add: position_event_def snapshot_event_def)
  from C9_own_events_ignored [OF a b] a b show ?thesis by simp
qed

text \<open>
  C5, as claimed: while the local tick is below the sender tick of a held event,
  \<open>isInAvailable\<close> returns false. \<open>isInAvailable\<close> reads the front of the queue
  only: with the event stamped 500 in front of the event stamped 900, at update count 600
  (local tick 500) it returns true, while the event stamped 900 is held and not due.
\<close>

theorem C5_event_behind_front_counterexample:
  "isInAvailable (ingame_client [event_at_500, event_at_900]) 600
   \<and> event_at_900 \<in> set (inEventQueue (ingame_client [event_at_500, event_at_900]))
   \<and> \<not> eventTimeStamp event_at_900
         \<le> 600 - startGameTimeStamp (ingame_client [event_at_500, event_at_900])"
  by (simp add: isInAvailable_def ingame_client_def event_at_500_def event_at_900_def)

text \<open>
  C5, amended. With the event \<open>e\<close> at the front of the inbound queue,
  \<open>isInAvailable\<close> is true exactly when the sender tick of \<open>e\<close> is at most the local
  tick, the update count minus the start tick in 64-bit unsigned arithmetic; it only
  reads the controller, so while the local tick is smaller the event stays in the queue.
  \<open>popInEvent\<close> removes and returns that front event, so a caller that pops after
  \<open>isInAvailable\<close> was true is handed an event whose sender tick the local tick has
  reached. Events behind the front are not inspected.
\<close>

theorem C5_front_event_hold_back:
  assumes "inEventQueue c = e # rest"
  shows "(isInAvailable c updateCount \<longleftrightarrow> eventTimeStamp e \<le> updateCount - startGameTimeStamp c)
       \<and> popInEvent c = Inr (e, c\<lparr>inEventQueue := rest\<rparr>)
       \<and> (isInAvailable c updateCount \<longrightarrow>
            (\<exists>e' c'. popInEvent c = Inr (e', c')
               \<and> eventTimeStamp e' \<le> updateCount - startGameTimeStamp c))"
  using assms by (simp add: isInAvailable_def popInEvent_def)

theorem C5_front_event_hold_back_witness:
  "inEventQueue (ingame_client [event_at_500]) = [event_at_500]
   \<and> \<not> isInAvailable (ingame_client [event_at_500]) 580
   \<and> \<not> isInAvailable (ingame_client [event_at_500]) 599
   \<and> isInAvailable (ingame_client [event_at_500]) 600
   \<and> popInEvent (ingame_client [event_at_500]) = Inr (event_at_500, ingame_client [])
   \<and> eventTimeStamp event_at_500 \<le> 600 - startGameTimeStamp (ingame_client [event_at_500])"
proof -
  have q: "inEventQueue (ingame_client [event_at_500]) = [event_at_500]"
    by (simp add: ingame_client_def)
  have s: "startGameTimeStamp (ingame_client [event_at_500]) = 100"
    and t: "eventTimeStamp event_at_500 = 500"
    and r: "(ingame_client [event_at_500])\<lparr>inEventQueue := []\<rparr> = ingame_client []"
    by (simp_all add: ingame_client_def event_at_500_def)
  show ?thesis
    using C5_front_event_hold_back [OF q, of 580] C5_front_event_hold_back [OF q, of 599]
      C5_front_event_hold_back [OF q, of 600] q s t r
    by simp
qed

text \<open>
  A message shorter than 9 bytes, or whose first byte is not below the number of
  registered event types, never comes out of \<open>unwrap\<close> as an event: with assertions
  compiled in the assertion \<^verbatim>\<open>Unwrapping invalid event\<close> fails, and without them the
  reads run outside the message or the registry. \<open>processReceivedData\<close> has no check
  of its own.
\<close>

lemma unwrap_invalid_envelope:
  assumes "length dat < 9 \<or> length (newEventVector c) \<le> unat (dat ! 0)"
  shows "unwrap True c updateCount dat source = Inl (AssertionFailed ''Unwrapping invalid event'')
       \<and> (\<exists>err. unwrap False c updateCount dat source = Inl err)
       \<and> (\<exists>err. processReceivedData asserts c updateCount source dat = Inl err)"
proof -
  have a: "unwrap True c updateCount dat source = Inl (AssertionFailed ''Unwrapping invalid event'')"
    using assms by (auto simp add: unwrap_def CUAssertLog_def MIN_MSG_LENGTH_def bindE_def)
  have b: "\<exists>err. unwrap False c updateCount dat source = Inl err"
    using assms
    by (auto simp add: unwrap_def CUAssertLog_def MIN_MSG_LENGTH_def bindE_def readByte_def
        receive_def readUint64_def readScalar_def Let_def split: sum.splits prod.splits)
  have "\<exists>err. unwrap asserts c updateCount dat source = Inl err"
    using a b by (cases asserts) auto
  then have c: "\<exists>err. processReceivedData asserts c updateCount source dat = Inl err"
    by (auto simp add: processReceivedData_def bindE_def)
  from a b c show ?thesis by simp
qed

text \<open>
  C4. The claim has a message shorter than 9 bytes, or with a tag that is not registered,
  dropped: nothing is delivered, the state is unchanged and processing goes on. The code
  guards \<open>unwrap\<close> with an assertion only. For the 3-byte message \<open>[0, 0, 0]\<close>
  received from a peer the assertion fails when assertions are compiled in, and without
  them the 8-byte tick is read at position 1 of a 3-byte buffer; the 10-byte message with
  the unregistered tag 9 fails the assertion likewise. In no case does the call return
  the controller.
\<close>

theorem C4_invalid_envelope_not_dropped:
  "processReceivedData True (ingame_client []) 600 ''peer'' [0, 0, 0]
     = Inl (AssertionFailed ''Unwrapping invalid event'')
   \<and> processReceivedData False (ingame_client []) 600 ''peer'' [0, 0, 0] = Inl OutOfBoundsRead
   \<and> processReceivedData True (ingame_client []) 600 ''peer'' [9, 0, 0, 0, 0, 0, 0, 0, 0, 102]
     = Inl (AssertionFailed ''Unwrapping invalid event'')"
  by (simp add: processReceivedData_def unwrap_def CUAssertLog_def MIN_MSG_LENGTH_def bindE_def
      ingame_client_def readByte_def receive_def readUint64_def readScalar_def)

subsection \<open>The tick: frame and loop lemmas\<close>

lemma bindE_Inr_iff: "bindE m f = Inr y \<longleftrightarrow> (\<exists>x. m = Inr x \<and> f x = Inr y)"
  by (cases m) (simp_all add: bindE_def)







































subsection \<open>Rounding to single precision\<close>

lemma two_powr_int: "(2::real) powr real_of_int j = 2 powi j"
  by (rule powr_real_of_int') simp_all

lemma log2_floor_bounds:
  assumes "0 < (x::real)"
  shows "2 powi \<lfloor>log 2 x\<rfloor> \<le> x" and "x < 2 powi (\<lfloor>log 2 x\<rfloor> + 1)"
proof -
  have "2 powr real_of_int \<lfloor>log 2 x\<rfloor> \<le> x \<and> x < 2 powr real_of_int (\<lfloor>log 2 x\<rfloor> + 1)"
  proof -
    have t: "(1::real) < 2" by simp
    from floor_log_eq_powr_iff [OF assms t, of "\<lfloor>log 2 x\<rfloor>"] show ?thesis by blast
  qed
  then show "2 powi \<lfloor>log 2 x\<rfloor> \<le> x" and "x < 2 powi (\<lfloor>log 2 x\<rfloor> + 1)"
    by (simp_all only: two_powr_int)
qed


lemma rhe_of_int [simp]: "round_half_even (of_int k) = k"
  by (simp add: round_half_even_def)

lemma rhe_cases:
  "round_half_even q = \<lfloor>q\<rfloor> \<or> round_half_even q = \<lfloor>q\<rfloor> + 1"
  by (simp add: round_half_even_def Let_def)


lemma rhe_upper: "round_half_even q \<le> \<lceil>q\<rceil>"
proof (cases "q = of_int \<lfloor>q\<rfloor>")
  case True
  then have "round_half_even q = \<lfloor>q\<rfloor>" by (metis rhe_of_int)
  then show ?thesis by (simp add: floor_le_ceiling)
next
  case False
  then have "\<lceil>q\<rceil> = \<lfloor>q\<rfloor> + 1" by (simp add: ceiling_altdef)
  with rhe_cases [of q] show ?thesis by auto
qed





lemma ulp_exp_minus [simp]: "ulp_exp (- x) = ulp_exp x"
  by (simp add: ulp_exp_def)


lemma fl_zero [simp]: "fl 0 = 0"
  by (simp add: fl_def)

lemma two_powi_less_cancel: "(2::real) powi a < 2 powi b \<Longrightarrow> a < b"
proof (rule ccontr)
  assume "2 powi a < (2::real) powi b" and "\<not> a < b"
  then have "b \<le> a" by simp
  then have "(2::real) powi b \<le> 2 powi a" by (rule power_int_increasing) simp
  with \<open>2 powi a < (2::real) powi b\<close> show False by simp
qed

lemma ulp_exp_pos:
  assumes "x \<noteq> 0"
  shows "\<lfloor>log 2 \<bar>x\<bar>\<rfloor> - 23 \<le> ulp_exp x" and "- 149 \<le> ulp_exp x"
  by (simp_all add: ulp_exp_def)

lemma fl_exact:
  assumes x: "x = of_int m * 2 powi e" and m: "\<bar>m\<bar> < 2 ^ 24" and e: "- 149 \<le> e"
  shows "fl x = x"
proof (cases "x = 0")
  case True
  then show ?thesis by simp
next
  case False
  then have pos: "0 < \<bar>x\<bar>" by simp
  have "\<bar>x\<bar> = of_int \<bar>m\<bar> * 2 powi e" using x by (simp add: abs_mult)
  also have "\<dots> < 2 ^ 24 * 2 powi e"
  proof -
    have "(of_int \<bar>m\<bar> :: real) < of_int (2 ^ 24)" using m by (simp only: of_int_less_iff)
    then have "(of_int \<bar>m\<bar> :: real) < 2 ^ 24" by simp
    then show ?thesis by (simp add: mult_strict_right_mono)
  qed
  also have "\<dots> = 2 powi (e + 24)" by (simp add: power_int_add)
  finally have up: "\<bar>x\<bar> < 2 powi (e + 24)" .
  from log2_floor_bounds(1) [OF pos] up have "2 powi \<lfloor>log 2 \<bar>x\<bar>\<rfloor> < (2::real) powi (e + 24)"
    by linarith
  then have "\<lfloor>log 2 \<bar>x\<bar>\<rfloor> < e + 24" by (rule two_powi_less_cancel)
  with e have ue: "ulp_exp x \<le> e" by (simp add: ulp_exp_def)
  define u where "u = ulp_exp x"
  define d where "d = nat (e - u)"
  have ed: "e = u + int d" using ue by (simp add: d_def u_def)
  have pw: "(2::real) powi e = 2 powi u * 2 ^ d"
    by (simp add: ed power_int_add)
  have "x / 2 powi u = of_int m * (2 powi u * 2 ^ d) / 2 powi u"
    by (simp only: x pw)
  also have "\<dots> = of_int m * 2 ^ d" by simp
  also have "\<dots> = of_int (m * 2 ^ d)" by simp
  finally have q: "x / 2 powi u = of_int (m * 2 ^ d)" .
  have "fl x = of_int (round_half_even (x / 2 powi u)) * 2 powi u"
    using False by (simp add: fl_def u_def)
  also have "\<dots> = of_int (m * 2 ^ d) * 2 powi u"
    by (simp only: q rhe_of_int)
  also have "\<dots> = of_int m * (2 powi u * 2 ^ d)" by simp
  also have "\<dots> = x" by (simp only: x pw)
  finally show ?thesis .
qed












lemma fl_int_small: "\<bar>i\<bar> < 2 ^ 24 \<Longrightarrow> fl (of_int i) = of_int i"
  by (rule fl_exact [where m = i and e = 0]) simp_all

lemma fl_2 [simp]: "fl 2 = 2"
  using fl_int_small [of 2] by simp

lemma fl_3 [simp]: "fl 3 = 3"
  using fl_int_small [of 3] by simp









lemma interpolate_Inr:
  assumes "interpolate n t s = Inr r"
  shows "r = fl (fl (fl (t - s) / int_to_float n) + s)"
  using assms
  by (auto simp add: interpolate_def bindE_Inr_iff fsub_def fdiv_def fadd_def fop_def
      split: if_splits)







text \<open>
  Without the condition on the difference the step is not finite: from \<open>- 2 ^ 127\<close>
  towards \<open>2 ^ 127\<close> the difference is \<open>2 ^ 128\<close>, above every binary32 value.
\<close>

lemma fl_p128: "fl (2 ^ 128) = 2 ^ 128"
  by (rule fl_exact [where m = 1 and e = 128]) simp_all

lemma interpolate_overflow: "interpolate 2 (2 ^ 127) (- (2 ^ 127)) = Inl FloatNotFinite"
proof -
  have "(2::real) ^ 127 - - (2 ^ 127) = 2 ^ 128" by simp
  then have "fsub (2 ^ 127) (- (2 ^ 127)) = Inl FloatNotFinite"
    by (simp only: fsub_def fop_def fl_p128) simp
  then show ?thesis by (simp only: interpolate_def bindE_def sum.case)
qed




subsection \<open>The step count of a snapshot\<close>




































end
